theory Spec2Isabelle
  imports Complex_Main "HOL-Library.Word"
begin

section \<open>The EasyOCR pre-processing model (pre/1/model.py)\<close>

text \<open>
  The module decodes each encoded image of a request, records the scale between
  the original size and the fixed canvas of the text detector, resizes the image
  to that canvas, normalises it and collects three per-batch sequences
  (\<open>output\<close>, \<open>image\<close>, \<open>scale\<close>).

  What belongs to PIL, NumPy's floating point and the Triton host is a parameter
  of the embedding (record \<open>env\<close>); everything the module itself writes is a
  definition below, in the order of the source.
\<close>

subsection \<open>Data\<close>

type_synonym bytes = "8 word list"

datatype np_dtype = NpObject | NpBool | NpUInt8 | NpUInt16 | NpInt32 | NpInt64
  | NpFloat16 | NpFloat32 | NpFloat64

text \<open>
  \<open>np.array(pil_img)\<close>: a single-band image is a 2-D array (rows of pixels), an
  image with several bands a 3-D array (rows of pixels of channel values). A PIL
  image is identified with this array. An array is its element type and the
  numbers its elements denote (\<open>False\<close> and \<open>True\<close> are 0 and 1): the 2-D array
  of a bilevel image (mode \<open>1\<close>) has element type bool, of an 8-bit gray or
  palette image uint8, of a 16-bit gray image uint16, of a 32-bit integer image
  (mode \<open>I\<close>) int32 and of a floating-point image (mode \<open>F\<close>) float32; the 3-D
  arrays of PIL are uint8. No operation of the module computes in the element
  type: the values are only copied and converted to float32. NumPy arrays are
  rectangular; the nested lists of a well-shaped array all have the same lengths
  (\<open>well_shaped\<close> below).
\<close>

datatype ndarray = Arr2 np_dtype "rat list list" | Arr3 np_dtype "rat list list list"

text \<open>
  A float32 or float64 value is the rational number it denotes; every
  floating-point operation is the exact operation followed by the rounding of its
  format, \<open>round32\<close> or \<open>round64\<close>.
\<close>

type_synonym farray = "rat list list list"

text \<open>
  The exceptions of \<open>execute\<close>, one constructor for each place that raises: the
  three checks on the request, the decoder, the in-place broadcast of
  \<open>normalizeMeanVariance\<close>, \<open>cv2.cvtColor\<close>, the final \<open>else\<close> of the loop
  body and a missing dictionary key.
\<close>

datatype error =
    MissingInput
  | MissingOutput
  | InvalidInputType
  | DecodeError
  | BroadcastError
  | CvtColorError
  | UnsupportedChannelLayout nat
  | KeyError string

record env =
  image_open :: "bytes \<Rightarrow> ndarray option"
  image_resize :: "ndarray \<Rightarrow> nat \<times> nat \<Rightarrow> ndarray"
  round32 :: "rat \<Rightarrow> rat"
  round64 :: "rat \<Rightarrow> rat"

text \<open>
  \<open>image_open\<close> is \<open>Image.open\<close> together with the first \<open>np.array(pil_img)\<close>,
  which loads the pixels: \<open>None\<close> when either raises. \<open>image_resize img (w, h)\<close>
  is \<open>np.array(pil_img.resize((w, h)))\<close>.
\<close>

text \<open>The values appended to the lists of \<open>batch_out\<close>.\<close>

datatype pyval =
    VTensor farray
  | VImage ndarray
  | VScale rat rat

type_synonym batch_out = "(string \<times> pyval list) list"

record in_tensor =
  in_dtype :: np_dtype
  in_rows :: "bytes list"

record request =
  input_tensor :: "in_tensor option"
  requested_output_names :: "string list"

text \<open>\<open>Tensor(name, np.asarray(out, dtype))\<close>: the name, the element type and the data.\<close>

record tensor =
  t_name :: string
  t_dtype :: np_dtype
  t_data :: "pyval list"

type_synonym response = "tensor list"

subsection \<open>Array helpers\<close>

definition row_len :: "'a list list \<Rightarrow> nat" where
  "row_len rows = (case rows of [] \<Rightarrow> 0 | r # _ \<Rightarrow> length r)"

definition chan_len :: "'a list list list \<Rightarrow> nat" where
  "chan_len rows = (case concat rows of [] \<Rightarrow> 0 | px # _ \<Rightarrow> length px)"

fun shape :: "ndarray \<Rightarrow> nat list" where
  "shape (Arr2 d rows) = [length rows, row_len rows]"
| "shape (Arr3 d rows) = [length rows, row_len rows, chan_len rows]"

fun dtype_of :: "ndarray \<Rightarrow> np_dtype" where
  "dtype_of (Arr2 d rows) = d"
| "dtype_of (Arr3 d rows) = d"

text \<open>An \<open>h \<times> w \<times> c\<close> array.\<close>

definition well_shaped :: "nat \<Rightarrow> nat \<Rightarrow> nat \<Rightarrow> 'a list list list \<Rightarrow> bool" where
  "well_shaped h w c a \<longleftrightarrow>
     length a = h \<and> (\<forall>row \<in> set a. length row = w \<and> (\<forall>px \<in> set row. length px = c))"

text \<open>
  \<open>cv2.cvtColor(a, cv2.COLOR_GRAY2BGR)\<close> on a 2-D array: OpenCV converts arrays of
  depth 8-bit unsigned, 16-bit unsigned and 32-bit float, and raises for every
  other element type (bool and int32 among them). Every gray value becomes the
  triple B, G, R, of the same element type.
\<close>

definition cv_depth_ok :: "np_dtype \<Rightarrow> bool" where
  "cv_depth_ok d \<longleftrightarrow> d = NpUInt8 \<or> d = NpUInt16 \<or> d = NpFloat32"

definition gray2bgr :: "rat list list \<Rightarrow> rat list list list" where
  "gray2bgr a = map (map (\<lambda>p. [p, p, p])) a"

definition cvtColor_gray2bgr ::
  "np_dtype \<Rightarrow> rat list list \<Rightarrow> error + rat list list list" where
  "cvtColor_gray2bgr d a = (if cv_depth_ok d then Inr (gray2bgr a) else Inl CvtColorError)"

text \<open>\<open>np.transpose(a, (2, 0, 1))\<close>: from height, width, channel to channel, height, width.\<close>

definition transpose_201 :: "'a list list list \<Rightarrow> 'a list list list" where
  "transpose_201 a = map (\<lambda>c. map (map (\<lambda>px. px ! c)) a) [0..<chan_len a]"

subsection \<open>normalizeMeanVariance\<close>

definition mean :: "rat list" where
  "mean = [485 / 1000, 456 / 1000, 406 / 1000]"

definition variance :: "rat list" where
  "variance = [229 / 1000, 224 / 1000, 225 / 1000]"

text \<open>
  \<open>np.array([m * 255.0, ...], dtype=np.float32)\<close>: the literal is a double, the
  product is a double, the array element is a float32.
\<close>

definition times255 :: "env \<Rightarrow> rat \<Rightarrow> rat" where
  "times255 E m = round32 E (round64 E (round64 E m * 255))"

text \<open>
  \<open>astype(np.float32)\<close> rounds the value of an element to float32; an array that
  is float32 already is copied.
\<close>

definition astype_float32 :: "env \<Rightarrow> np_dtype \<Rightarrow> rat \<Rightarrow> rat" where
  "astype_float32 E d v = (if d = NpFloat32 then v else round32 E v)"

text \<open>
  The two in-place operations broadcast a vector of three elements over the last
  axis, which NumPy accepts only when that axis has length 3. The divisors are not
  zero under IEEE rounding, so the quotient is never taken with a zero divisor.
  The argument is a 3-D array, given by its element type and its elements.
\<close>

definition normalizeMeanVariance ::
  "env \<Rightarrow> np_dtype \<Rightarrow> rat list list list \<Rightarrow> error + farray" where
  "normalizeMeanVariance E d in_img =
     (let img = map (map (map (astype_float32 E d))) in_img in
      if chan_len img \<noteq> 3 then Inl BroadcastError
      else
        let img1 = map (map (\<lambda>px. map (\<lambda>(x, m). round32 E (x - m))
                     (zip px (map (times255 E) mean)))) img;
            img2 = map (map (\<lambda>px. map (\<lambda>(x, v). round32 E (x / v))
                     (zip px (map (times255 E) variance)))) img1
        in Inr img2)"

subsection \<open>The loop body of execute\<close>

definition output_names :: "(string \<times> string) list" where
  "output_names = [(''output'', ''output''), (''image'', ''image''), (''scale'', ''scale'')]"

definition newsize :: "nat \<times> nat" where
  "newsize = (2240, 1920)"

text \<open>\<open>d[k].append(v)\<close> on a dictionary of lists; a missing key raises.\<close>

fun dict_append :: "string \<Rightarrow> 'v \<Rightarrow> (string \<times> 'v list) list \<Rightarrow> error + (string \<times> 'v list) list" where
  "dict_append k v [] = Inl (KeyError k)"
| "dict_append k v ((k', xs) # rest) =
     (if k = k' then Inr ((k', xs @ [v]) # rest)
      else (case dict_append k v rest of
              Inl e \<Rightarrow> Inl e
            | Inr rest' \<Rightarrow> Inr ((k', xs) # rest')))"

text \<open>\<open>h, w = np.array(pil_img).shape[:2]\<close> and the list \<open>[w/2240, h/1920]\<close>.\<close>

definition scale_pair :: "env \<Rightarrow> ndarray \<Rightarrow> pyval" where
  "scale_pair E pil_img =
     (let h = shape pil_img ! 0; w = shape pil_img ! 1
      in VScale (round64 E (of_nat w / 2240)) (round64 E (of_nat h / 1920)))"

text \<open>
  Lines 85 to 92: the resized image that is emitted and the normalised tensor.
  \<open>np.array(image, dtype=np.float32)\<close> of line 94 copies an array that is float32
  already.
\<close>

definition transform :: "env \<Rightarrow> ndarray \<Rightarrow> error + (ndarray \<times> farray)" where
  "transform E pil_img =
     (let resized_image = image_resize E pil_img newsize in
      case resized_image of
        Arr3 d a \<Rightarrow>
          (case normalizeMeanVariance E d a of
             Inl e \<Rightarrow> Inl e
           | Inr n \<Rightarrow> Inr (resized_image, transpose_201 n))
      | Arr2 d g \<Rightarrow>
          if length (shape pil_img) = 2 then
            (case cvtColor_gray2bgr d g of
               Inl e \<Rightarrow> Inl e
             | Inr bgr \<Rightarrow>
                 (case normalizeMeanVariance E d bgr of
                    Inl e \<Rightarrow> Inl e
                  | Inr n \<Rightarrow> Inr (Arr3 d bgr, transpose_201 n)))
          else Inl (UnsupportedChannelLayout (length (shape pil_img))))"

definition process_image :: "env \<Rightarrow> ndarray \<Rightarrow> batch_out \<Rightarrow> error + batch_out" where
  "process_image E pil_img bo =
     (case dict_append ''scale'' (scale_pair E pil_img) bo of
        Inl e \<Rightarrow> Inl e
      | Inr bo1 \<Rightarrow>
          (case transform E pil_img of
             Inl e \<Rightarrow> Inl e
           | Inr (resized_image, image_chw) \<Rightarrow>
               (case dict_append ''image'' (VImage resized_image) bo1 of
                  Inl e \<Rightarrow> Inl e
                | Inr bo2 \<Rightarrow> dict_append ''output'' (VTensor image_chw) bo2)))"

text \<open>
  \<open>for img in batch_in\<close>. The first component of the state counts the buffers
  handed to the decoder so far; it is not in the source and no result depends on
  it.
\<close>

fun image_loop :: "env \<Rightarrow> bytes list \<Rightarrow> nat \<times> batch_out \<Rightarrow> nat \<times> (error + batch_out)" where
  "image_loop E [] (n, bo) = (n, Inr bo)"
| "image_loop E (b # bs) (n, bo) =
     (case image_open E b of
        None \<Rightarrow> (Suc n, Inl DecodeError)
      | Some pil_img \<Rightarrow>
          (case process_image E pil_img bo of
             Inl e \<Rightarrow> (Suc n, Inl e)
           | Inr bo' \<Rightarrow> image_loop E bs (Suc n, bo')))"

subsection \<open>execute\<close>

text \<open>
  \<open>self.output_dtypes\<close> is filled by \<open>initialize\<close> for the three keys of
  \<open>output_names\<close>; it is the parameter \<open>dtypes\<close>.
\<close>

definition init_batch_out :: "string list \<Rightarrow> batch_out" where
  "init_batch_out requested =
     map (\<lambda>(k, name). (k, [])) (filter (\<lambda>(k, name). name \<in> set requested) output_names)"

fun make_tensors :: "(string \<Rightarrow> np_dtype) \<Rightarrow> batch_out \<Rightarrow> error + response" where
  "make_tensors dtypes [] = Inr []"
| "make_tensors dtypes ((k, out) # rest) =
     (case map_of output_names k of
        None \<Rightarrow> Inl (KeyError k)
      | Some name \<Rightarrow>
          (case make_tensors dtypes rest of
             Inl e \<Rightarrow> Inl e
           | Inr ts \<Rightarrow> Inr (\<lparr>t_name = name, t_dtype = dtypes k, t_data = out\<rparr> # ts)))"

text \<open>
  One iteration of \<open>for request in inference_requests\<close>: the number of buffers
  handed to the decoder and the response or the exception.
\<close>

definition execute_request ::
  "env \<Rightarrow> (string \<Rightarrow> np_dtype) \<Rightarrow> request \<Rightarrow> nat \<times> (error + response)" where
  "execute_request E dtypes req =
     (case input_tensor req of
        None \<Rightarrow> (0, Inl MissingInput)
      | Some batch_in_tensor \<Rightarrow>
          if ''output'' \<notin> set (requested_output_names req) then (0, Inl MissingOutput)
          else if in_dtype batch_in_tensor \<noteq> NpObject then (0, Inl InvalidInputType)
          else
            (case image_loop E (in_rows batch_in_tensor)
                    (0, init_batch_out (requested_output_names req)) of
               (n, Inl e) \<Rightarrow> (n, Inl e)
             | (n, Inr bo) \<Rightarrow> (n, make_tensors dtypes bo)))"

fun execute :: "env \<Rightarrow> (string \<Rightarrow> np_dtype) \<Rightarrow> request list \<Rightarrow> error + response list" where
  "execute E dtypes [] = Inr []"
| "execute E dtypes (req # reqs) =
     (case snd (execute_request E dtypes req) of
        Inl e \<Rightarrow> Inl e
      | Inr r \<Rightarrow>
          (case execute E dtypes reqs of
             Inl e \<Rightarrow> Inl e
           | Inr rs \<Rightarrow> Inr (r # rs)))"

subsection \<open>Auxiliary notions for the statements\<close>

text \<open>The dictionary \<open>batch_out\<close> when all three outputs are requested.\<close>

definition full_dict :: "pyval list \<Rightarrow> pyval list \<Rightarrow> pyval list \<Rightarrow> batch_out" where
  "full_dict os is ss = [(''output'', os), (''image'', is), (''scale'', ss)]"

text \<open>The three values the loop body appends for one buffer.\<close>

definition derived :: "env \<Rightarrow> bytes \<Rightarrow> pyval \<times> pyval \<times> pyval \<Rightarrow> bool" where
  "derived E b v \<longleftrightarrow> (\<exists>img r t. image_open E b = Some img \<and> transform E img = Inr (r, t)
      \<and> v = (VTensor t, VImage r, scale_pair E img))"

text \<open>
  What PIL's \<open>resize\<close> to the canvas returns for an image: 1920 rows of 2240
  pixels, with the bands and the element type of the image.
\<close>

fun resized_ok :: "ndarray \<Rightarrow> ndarray \<Rightarrow> bool" where
  "resized_ok (Arr2 d0 g0) (Arr2 d g) \<longleftrightarrow>
     d = d0 \<and> length g = 1920 \<and> (\<forall>row \<in> set g. length row = 2240)"
| "resized_ok (Arr3 d0 a0) (Arr3 d a) \<longleftrightarrow> d = d0 \<and> well_shaped 1920 2240 (chan_len a0) a"
| "resized_ok _ _ \<longleftrightarrow> False"

subsection \<open>A concrete environment\<close>

text \<open>
  Exact arithmetic for both roundings, a resize that fills the canvas with the
  first pixel of the image, and a decoder that reads the kind of image from the
  first byte of the buffer and rejects the empty buffer.
\<close>

definition fill_resize :: "ndarray \<Rightarrow> nat \<times> nat \<Rightarrow> ndarray" where
  "fill_resize img sz =
     (case sz of (w, h) \<Rightarrow>
        (case img of
           Arr2 d g \<Rightarrow> Arr2 d (replicate h (replicate w (case concat g of [] \<Rightarrow> 0 | p # _ \<Rightarrow> p)))
         | Arr3 d a \<Rightarrow> Arr3 d (replicate h (replicate w (case concat a of [] \<Rightarrow> [] | px # _ \<Rightarrow> px)))))"

definition demo_open :: "bytes \<Rightarrow> ndarray option" where
  "demo_open b =
     (case b of
        [] \<Rightarrow> None
      | c # _ \<Rightarrow>
          if c = 1 then Some (Arr2 NpUInt8 [[7]])
          else if c = 2 then Some (Arr2 NpUInt8 (replicate 3840 (replicate 4480 0)))
          else if c = 4 then Some (Arr3 NpUInt8 [[[1, 2, 3, 4]]])
          else if c = 5 then Some (Arr2 NpBool [[1]])
          else if c = 6 then Some (Arr2 NpUInt16 [[1000]])
          else if c = 7 then Some (Arr2 NpInt32 [[70000]])
          else Some (Arr3 NpUInt8 [[[10, 20, 30]]]))"

definition demo_env :: env where
  "demo_env = \<lparr>image_open = demo_open, image_resize = fill_resize,
                round32 = (\<lambda>x. x), round64 = (\<lambda>x. x)\<rparr>"

definition demo_dtypes :: "string \<Rightarrow> np_dtype" where
  "demo_dtypes k = (if k = ''image'' then NpUInt8 else NpFloat32)"

definition demo_request :: "bytes list \<Rightarrow> string list \<Rightarrow> request" where
  "demo_request rows names =
     \<lparr>input_tensor = Some \<lparr>in_dtype = NpObject, in_rows = rows\<rparr>,
      requested_output_names = names\<rparr>"

section \<open>Properties\<close>

subsection \<open>Arrays\<close>

lemma chan_len_well_shaped:
  assumes "well_shaped h w c a" "0 < h" "0 < w"
  shows "chan_len a = c"
proof -
  from assms obtain r rs where a: "a = r # rs" by (cases a) (auto simp: well_shaped_def)
  with assms obtain p ps where r: "r = p # ps" by (cases r) (auto simp: well_shaped_def)
  from assms a r show ?thesis by (simp add: chan_len_def well_shaped_def)
qed

lemma well_shaped_map:
  "well_shaped h w c a \<Longrightarrow> (\<And>px. length (f px) = c') \<Longrightarrow> well_shaped h w c' (map (map f) a)"
  by (auto simp: well_shaped_def)

lemma well_shaped_nth:
  assumes "well_shaped h w c a" "y < h" "x < w"
  shows "length (a ! y) = w" and "length (a ! y ! x) = c"
proof -
  from assms have row: "a ! y \<in> set a" by (simp add: well_shaped_def)
  with assms show w: "length (a ! y) = w" by (simp add: well_shaped_def)
  with assms have "a ! y ! x \<in> set (a ! y)" by simp
  moreover from row assms have "\<forall>px \<in> set (a ! y). length px = c"
    unfolding well_shaped_def by blast
  ultimately show "length (a ! y ! x) = c" by blast
qed

lemma well_shaped_replicate: "well_shaped h w (length px) (replicate h (replicate w px))"
  by (simp add: well_shaped_def)

lemma well_shaped_transpose:
  assumes "well_shaped h w c a" "0 < h" "0 < w"
  shows "well_shaped c h w (transpose_201 a)"
  using assms chan_len_well_shaped [OF assms]
  by (auto simp: well_shaped_def transpose_201_def)

lemma transpose_nth:
  assumes "well_shaped h w c a" "0 < h" "0 < w" "k < c" "y < h" "x < w"
  shows "transpose_201 a ! k ! y ! x = a ! y ! x ! k"
  using assms chan_len_well_shaped [OF assms(1-3)]
  by (simp add: transpose_201_def well_shaped_def)

lemma normalize_ok:
  assumes "well_shaped h w 3 a" "0 < h" "0 < w"
  shows "\<exists>n. normalizeMeanVariance E d a = Inr n \<and> well_shaped h w 3 n \<and>
     (\<forall>y<h. \<forall>x<w. \<forall>k<3. n ! y ! x ! k =
        round32 E (round32 E (astype_float32 E d (a ! y ! x ! k) - times255 E (mean ! k))
                    / times255 E (variance ! k)))"
proof -
  define f0 where "f0 = map (astype_float32 E d)"
  define f1 where "f1 = (\<lambda>px. map (\<lambda>(x, m). round32 E (x - m)) (zip px (map (times255 E) mean)))"
  define f2 where "f2 = (\<lambda>px. map (\<lambda>(x, v). round32 E (x / v)) (zip px (map (times255 E) variance)))"
  define n where "n = map (map f2) (map (map f1) (map (map f0) a))"
  have lm: "length mean = 3" and lv: "length variance = 3"
    by (simp_all add: mean_def variance_def)
  have ws0: "well_shaped h w 3 (map (map f0) a)"
    using assms(1) by (auto simp: well_shaped_def f0_def)
  have cl: "chan_len (map (map f0) a) = 3"
    by (rule chan_len_well_shaped [OF ws0 assms(2,3)])
  have eq: "normalizeMeanVariance E d a = Inr n"
    using cl by (simp add: normalizeMeanVariance_def Let_def n_def f0_def f1_def f2_def del: map_map)
  have ws: "well_shaped h w 3 n"
    using assms(1) by (auto simp: well_shaped_def n_def f0_def f1_def f2_def mean_def variance_def)
  have val: "n ! y ! x ! k =
        round32 E (round32 E (astype_float32 E d (a ! y ! x ! k) - times255 E (mean ! k))
                    / times255 E (variance ! k))"
    if "y < h" "x < w" "k < 3" for y x k
  proof -
    have ly: "y < length a" using assms(1) that by (simp add: well_shaped_def)
    have lx: "x < length (a ! y)" using well_shaped_nth(1) [OF assms(1) that(1,2)] that by simp
    have lk: "length (a ! y ! x) = 3" by (rule well_shaped_nth(2) [OF assms(1) that(1,2)])
    have "n ! y ! x = f2 (f1 (f0 (a ! y ! x)))"
      using ly lx by (simp add: n_def)
    then show ?thesis
      using lk that(3) lm lv by (simp add: f0_def f1_def f2_def)
  qed
  from eq ws val show ?thesis by blast
qed

subsection \<open>The checks on the request\<close>

text \<open>
  Claim C8, as amended. A request that carries the input tensor and whose
  requested output names do not include \<open>output\<close> raises the missing-output
  error, and no buffer has been handed to the decoder.
\<close>

theorem missing_output_before_decoding:
  assumes "input_tensor req = Some t" and "''output'' \<notin> set (requested_output_names req)"
  shows "execute_request E dtypes req = (0, Inl MissingOutput)"
  using assms by (simp add: execute_request_def)

theorem missing_output_before_decoding_witness:
  "execute_request demo_env demo_dtypes (demo_request [[3], [1]] [''image'', ''scale''])
     = (0, Inl MissingOutput)"
  using missing_output_before_decoding [of "demo_request [[3], [1]] [''image'', ''scale'']"
      "\<lparr>in_dtype = NpObject, in_rows = [[3], [1]]\<rparr>" demo_env demo_dtypes]
  by (simp add: demo_request_def)

text \<open>
  Claim C8 as written fails: the check of the input tensor comes first, so a
  request without the input tensor and without \<open>output\<close> among the requested
  names raises the missing-input error.
\<close>

theorem missing_output_counterexample:
  "execute_request demo_env demo_dtypes \<lparr>input_tensor = None, requested_output_names = [''image'']\<rparr>
     = (0, Inl MissingInput)"
  by (simp add: execute_request_def)

text \<open>
  Claim C9, as amended. A request that carries the input tensor and requests
  \<open>output\<close>, and whose input array is not of the object type, raises the
  invalid-input-type error before the loop: no buffer has been handed to the
  decoder.
\<close>

theorem invalid_input_type_before_loop:
  assumes "input_tensor req = Some t" and "''output'' \<in> set (requested_output_names req)"
    and "in_dtype t \<noteq> NpObject"
  shows "execute_request E dtypes req = (0, Inl InvalidInputType)"
  using assms by (simp add: execute_request_def)

theorem invalid_input_type_before_loop_witness:
  "execute_request demo_env demo_dtypes
     \<lparr>input_tensor = Some \<lparr>in_dtype = NpFloat32, in_rows = [[3], [1]]\<rparr>,
      requested_output_names = [''output'']\<rparr>
     = (0, Inl InvalidInputType)"
  using invalid_input_type_before_loop [of
     "\<lparr>input_tensor = Some \<lparr>in_dtype = NpFloat32, in_rows = [[3], [1]]\<rparr>,
      requested_output_names = [''output'']\<rparr>"
     "\<lparr>in_dtype = NpFloat32, in_rows = [[3], [1]]\<rparr>" demo_env demo_dtypes]
  by simp

text \<open>
  Claim C9 as written fails: the check of the requested names comes before the
  check of the element type, so a numeric input array in a request that does not
  ask for \<open>output\<close> raises the missing-output error.
\<close>

theorem invalid_input_type_counterexample:
  "execute_request demo_env demo_dtypes
     \<lparr>input_tensor = Some \<lparr>in_dtype = NpUInt8, in_rows = [[3]]\<rparr>, requested_output_names = [''image'']\<rparr>
     = (0, Inl MissingOutput)"
  by (simp add: execute_request_def)

subsection \<open>The empty batch\<close>

text \<open>
  Claim C10. A request with the input tensor present, of the object type, with
  \<open>output\<close> among the requested names and with no image in the batch raises
  nothing: the response holds one tensor for each of the three output names that
  is requested, in the order \<open>output\<close>, \<open>image\<close>, \<open>scale\<close>, and each of them is
  empty.
\<close>

theorem execute_empty_batch:
  assumes "input_tensor req = Some t" and "in_dtype t = NpObject" and "in_rows t = []"
    and "''output'' \<in> set (requested_output_names req)"
  shows "\<exists>resp. execute_request E dtypes req = (0, Inr resp)
           \<and> (\<forall>ts \<in> set resp. t_data ts = [])
           \<and> map t_name resp =
               filter (\<lambda>name. name \<in> set (requested_output_names req)) [''output'', ''image'', ''scale'']"
  using assms
  by (simp add: execute_request_def init_batch_out_def output_names_def)

theorem execute_empty_batch_witness:
  "\<exists>resp. execute_request demo_env demo_dtypes (demo_request [] [''scale'', ''output'']) = (0, Inr resp)
           \<and> (\<forall>ts \<in> set resp. t_data ts = [])
           \<and> map t_name resp = [''output'', ''scale'']"
  using execute_empty_batch [of "demo_request [] [''scale'', ''output'']"
      "\<lparr>in_dtype = NpObject, in_rows = []\<rparr>" demo_env demo_dtypes]
  by (simp add: demo_request_def)

subsection \<open>Outputs that are not requested\<close>

text \<open>
  Claim C2 does not hold of the code. \<open>batch_out\<close> has a list only for the
  requested names, but the loop body appends to \<open>scale\<close>, \<open>image\<close> and \<open>output\<close>
  whatever was requested: with one decodable image and only \<open>output\<close> requested,
  the first append of the loop body raises \<open>KeyError\<close>.
\<close>

theorem only_output_requested_raises:
  "execute_request demo_env demo_dtypes (demo_request [[3]] [''output''])
     = (1, Inl (KeyError ''scale''))"
  by (simp add: execute_request_def demo_request_def init_batch_out_def output_names_def
      demo_env_def demo_open_def process_image_def)

subsection \<open>The loop body on one image\<close>

lemma transform_color_ok:
  assumes "image_resize E img newsize = Arr3 d a" "well_shaped h w 3 a" "0 < h" "0 < w"
  shows "\<exists>n. normalizeMeanVariance E d a = Inr n \<and> transform E img = Inr (Arr3 d a, transpose_201 n)"
  using normalize_ok [OF assms(2-4), where E = E and d = d] assms(1)
  by (auto simp: transform_def)

lemma well_shaped_gray2bgr:
  "length g = h \<Longrightarrow> \<forall>row \<in> set g. length row = w \<Longrightarrow> well_shaped h w 3 (gray2bgr g)"
  by (auto simp: well_shaped_def gray2bgr_def)

lemma transform_gray_ok:
  assumes "image_resize E (Arr2 d0 g0) newsize = Arr2 d g" "length g = h"
    "\<forall>row \<in> set g. length row = w" "0 < h" "0 < w" "cv_depth_ok d"
  shows "\<exists>n. normalizeMeanVariance E d (gray2bgr g) = Inr n
           \<and> transform E (Arr2 d0 g0) = Inr (Arr3 d (gray2bgr g), transpose_201 n)"
  using normalize_ok [OF well_shaped_gray2bgr [OF assms(2,3)] assms(4,5), where E = E and d = d]
    assms(1,6)
  by (auto simp: transform_def cvtColor_gray2bgr_def)

lemma transform_gray_depth:
  assumes "image_resize E (Arr2 d0 g0) newsize = Arr2 d g" "\<not> cv_depth_ok d"
  shows "transform E (Arr2 d0 g0) = Inl CvtColorError"
  using assms by (simp add: transform_def cvtColor_gray2bgr_def)

subsection \<open>The concrete environment\<close>

lemma demo_resize_color:
  "image_resize demo_env (Arr3 d [[px]]) newsize = Arr3 d (replicate 1920 (replicate 2240 px))"
  by (simp add: demo_env_def fill_resize_def newsize_def)

lemma demo_resize_gray:
  "image_resize demo_env (Arr2 d [[p]]) newsize = Arr2 d (replicate 1920 (replicate 2240 p))"
  by (simp add: demo_env_def fill_resize_def newsize_def)

lemma demo_transform_rgb: "\<exists>r. transform demo_env (Arr3 NpUInt8 [[[10, 20, 30]]]) = Inr r"
proof -
  have ws: "well_shaped 1920 2240 3 (replicate 1920 (replicate 2240 [10, 20, 30 :: rat]))"
    by (simp add: well_shaped_def)
  from transform_color_ok [OF demo_resize_color [where d = NpUInt8] ws] show ?thesis by auto
qed

lemma demo_transform_gray: "\<exists>r. transform demo_env (Arr2 NpUInt8 [[7]]) = Inr r"
proof -
  have "\<exists>n. normalizeMeanVariance demo_env NpUInt8 (gray2bgr (replicate 1920 (replicate 2240 7))) = Inr n
           \<and> transform demo_env (Arr2 NpUInt8 [[7]]) =
               Inr (Arr3 NpUInt8 (gray2bgr (replicate 1920 (replicate 2240 7))), transpose_201 n)"
    by (rule transform_gray_ok [OF demo_resize_gray, where h = 1920 and w = 2240])
       (simp_all add: cv_depth_ok_def)
  then show ?thesis by auto
qed

lemma demo_open_simps:
  "image_open demo_env [] = None"
  "image_open demo_env [1] = Some (Arr2 NpUInt8 [[7]])"
  "image_open demo_env [3] = Some (Arr3 NpUInt8 [[[10, 20, 30]]])"
  "image_open demo_env [4] = Some (Arr3 NpUInt8 [[[1, 2, 3, 4]]])"
  "image_open demo_env [5] = Some (Arr2 NpBool [[1]])"
  "image_open demo_env [6] = Some (Arr2 NpUInt16 [[1000]])"
  "image_open demo_env [7] = Some (Arr2 NpInt32 [[70000]])"
  by (simp_all add: demo_env_def demo_open_def)

subsection \<open>The loop when all three outputs are requested\<close>

lemma process_image_full:
  "transform E img = Inr (r, t) \<Longrightarrow>
   process_image E img (full_dict os is ss) =
     Inr (full_dict (os @ [VTensor t]) (is @ [VImage r]) (ss @ [scale_pair E img]))"
  by (simp add: process_image_def full_dict_def)

lemma process_image_full_err:
  "transform E img = Inl e \<Longrightarrow> process_image E img (full_dict os is ss) = Inl e"
  by (simp add: process_image_def full_dict_def)

lemma image_loop_full:
  "image_loop E bs (n, full_dict os is ss) = (n', Inr bo) \<Longrightarrow>
   \<exists>vs. list_all2 (derived E) bs vs \<and> n' = n + length bs \<and>
        bo = full_dict (os @ map fst vs) (is @ map (\<lambda>v. fst (snd v)) vs)
               (ss @ map (\<lambda>v. snd (snd v)) vs)"
proof (induction bs arbitrary: n os "is" ss)
  case Nil
  then show ?case by simp
next
  case (Cons b bs)
  from Cons.prems obtain img where op: "image_open E b = Some img"
    by (auto split: option.splits)
  from Cons.prems op obtain r t where tr: "transform E img = Inr (r, t)"
    by (cases "transform E img") (auto simp: process_image_full_err)
  from Cons.prems op tr have
    "image_loop E bs (Suc n, full_dict (os @ [VTensor t]) (is @ [VImage r]) (ss @ [scale_pair E img])) = (n', Inr bo)"
    by (simp add: process_image_full)
  from Cons.IH [OF this] obtain vs where vs: "list_all2 (derived E) bs vs" "n' = Suc n + length bs"
    "bo = full_dict ((os @ [VTensor t]) @ map fst vs) ((is @ [VImage r]) @ map (\<lambda>v. fst (snd v)) vs)
            ((ss @ [scale_pair E img]) @ map (\<lambda>v. snd (snd v)) vs)"
    by blast
  have "derived E b (VTensor t, VImage r, scale_pair E img)"
    using op tr by (auto simp: derived_def)
  with vs show ?case
    by (intro exI [of _ "(VTensor t, VImage r, scale_pair E img) # vs"]) simp
qed

lemma image_loop_full_ok:
  "\<forall>b \<in> set bs. \<exists>img r. image_open E b = Some img \<and> transform E img = Inr r \<Longrightarrow>
   \<exists>bo. image_loop E bs (n, full_dict os is ss) = (n + length bs, Inr bo)"
proof (induction bs arbitrary: n os "is" ss)
  case Nil
  then show ?case by simp
next
  case (Cons b bs)
  then obtain img r t where op: "image_open E b = Some img" and tr: "transform E img = Inr (r, t)"
    by fastforce
  from Cons.IH [of "Suc n" "os @ [VTensor t]" "is @ [VImage r]" "ss @ [scale_pair E img]"] Cons.prems
  show ?case using op tr by (simp add: process_image_full)
qed

lemma init_batch_out_full:
  "''output'' \<in> set names \<Longrightarrow> ''image'' \<in> set names \<Longrightarrow> ''scale'' \<in> set names \<Longrightarrow>
   init_batch_out names = full_dict [] [] []"
  by (simp add: init_batch_out_def output_names_def full_dict_def)

lemma make_tensors_full:
  "make_tensors dtypes (full_dict os is ss) =
     Inr [\<lparr>t_name = ''output'', t_dtype = dtypes ''output'', t_data = os\<rparr>,
          \<lparr>t_name = ''image'', t_dtype = dtypes ''image'', t_data = is\<rparr>,
          \<lparr>t_name = ''scale'', t_dtype = dtypes ''scale'', t_data = ss\<rparr>]"
  by (simp add: full_dict_def output_names_def)

lemma derived_nth:
  assumes "list_all2 (derived E) bs vs" "i < length bs"
  shows "\<exists>img r t. image_open E (bs ! i) = Some img \<and> transform E img = Inr (r, t)
           \<and> fst (vs ! i) = VTensor t \<and> fst (snd (vs ! i)) = VImage r
           \<and> snd (snd (vs ! i)) = scale_pair E img"
proof -
  from assms have "derived E (bs ! i) (vs ! i)" by (simp add: list_all2_conv_all_nth)
  then show ?thesis by (auto simp: derived_def)
qed

lemma execute_request_full:
  assumes "input_tensor req = Some t" and "in_dtype t = NpObject"
    and "''output'' \<in> set (requested_output_names req)"
    and "''image'' \<in> set (requested_output_names req)"
    and "''scale'' \<in> set (requested_output_names req)"
    and "image_loop E (in_rows t) (0, full_dict [] [] []) = (n, Inr bo)"
  shows "\<exists>os is ss.
     execute_request E dtypes req =
       (length (in_rows t),
        Inr [\<lparr>t_name = ''output'', t_dtype = dtypes ''output'', t_data = os\<rparr>,
             \<lparr>t_name = ''image'', t_dtype = dtypes ''image'', t_data = is\<rparr>,
             \<lparr>t_name = ''scale'', t_dtype = dtypes ''scale'', t_data = ss\<rparr>])
     \<and> length os = length (in_rows t) \<and> length is = length (in_rows t)
     \<and> length ss = length (in_rows t)
     \<and> (\<forall>i < length (in_rows t). \<exists>img r a.
           image_open E (in_rows t ! i) = Some img \<and> transform E img = Inr (r, a)
           \<and> os ! i = VTensor a \<and> is ! i = VImage r \<and> ss ! i = scale_pair E img)"
proof -
  from image_loop_full [of E "in_rows t" 0 "[]" "[]" "[]" n bo] assms(6)
  obtain vs where vs: "list_all2 (derived E) (in_rows t) vs" and n: "n = length (in_rows t)"
    and bo: "bo = full_dict (map fst vs) (map (\<lambda>v. fst (snd v)) vs) (map (\<lambda>v. snd (snd v)) vs)"
    by auto
  from vs have len: "length vs = length (in_rows t)" by (simp add: list_all2_lengthD)
  have ex: "execute_request E dtypes req =
       (length (in_rows t),
        Inr [\<lparr>t_name = ''output'', t_dtype = dtypes ''output'', t_data = map fst vs\<rparr>,
             \<lparr>t_name = ''image'', t_dtype = dtypes ''image'', t_data = map (\<lambda>v. fst (snd v)) vs\<rparr>,
             \<lparr>t_name = ''scale'', t_dtype = dtypes ''scale'', t_data = map (\<lambda>v. snd (snd v)) vs\<rparr>])"
    using assms(1-5) assms(6) [unfolded n bo]
    by (simp add: execute_request_def init_batch_out_full make_tensors_full)
  have nth: "\<exists>img r a.
           image_open E (in_rows t ! i) = Some img \<and> transform E img = Inr (r, a)
           \<and> map fst vs ! i = VTensor a \<and> map (\<lambda>v. fst (snd v)) vs ! i = VImage r
           \<and> map (\<lambda>v. snd (snd v)) vs ! i = scale_pair E img"
    if "i < length (in_rows t)" for i
    using derived_nth [OF vs that] that len by simp
  show ?thesis
    apply (rule exI [of _ "map fst vs"])
    apply (rule exI [of _ "map (\<lambda>v. fst (snd v)) vs"])
    apply (rule exI [of _ "map (\<lambda>v. snd (snd v)) vs"])
    using ex len nth by simp
qed

text \<open>
  Claim C1. When the request passes the three checks, all three output names are
  requested and every buffer of the batch decodes and is resized and normalised
  without error, the response holds the tensors \<open>output\<close>, \<open>image\<close> and
  \<open>scale\<close>, each with one element for each buffer, and the elements at position
  \<open>i\<close> are the normalised tensor, the resized image and the scale pair computed
  from the buffer at position \<open>i\<close>.
\<close>

theorem all_outputs_aligned:
  assumes "input_tensor req = Some t" and "in_dtype t = NpObject"
    and "{''output'', ''image'', ''scale''} \<subseteq> set (requested_output_names req)"
    and "\<forall>b \<in> set (in_rows t). \<exists>img r. image_open E b = Some img \<and> transform E img = Inr r"
  shows "\<exists>os is ss.
     execute_request E dtypes req =
       (length (in_rows t),
        Inr [\<lparr>t_name = ''output'', t_dtype = dtypes ''output'', t_data = os\<rparr>,
             \<lparr>t_name = ''image'', t_dtype = dtypes ''image'', t_data = is\<rparr>,
             \<lparr>t_name = ''scale'', t_dtype = dtypes ''scale'', t_data = ss\<rparr>])
     \<and> length os = length (in_rows t) \<and> length is = length (in_rows t)
     \<and> length ss = length (in_rows t)
     \<and> (\<forall>i < length (in_rows t). \<exists>img r a.
           image_open E (in_rows t ! i) = Some img \<and> transform E img = Inr (r, a)
           \<and> os ! i = VTensor a \<and> is ! i = VImage r \<and> ss ! i = scale_pair E img)"
proof -
  from image_loop_full_ok [OF assms(4), of 0 "[]" "[]" "[]"]
  obtain bo where "image_loop E (in_rows t) (0, full_dict [] [] []) = (length (in_rows t), Inr bo)"
    by auto
  with assms(1-3) show ?thesis
    by (intro execute_request_full [where n = "length (in_rows t)" and bo = bo]) simp_all
qed

theorem all_outputs_aligned_witness:
  "\<exists>os is ss.
     execute_request demo_env demo_dtypes (demo_request [[3], [1]] [''output'', ''image'', ''scale'']) =
       (2, Inr [\<lparr>t_name = ''output'', t_dtype = NpFloat32, t_data = os\<rparr>,
                \<lparr>t_name = ''image'', t_dtype = NpUInt8, t_data = is\<rparr>,
                \<lparr>t_name = ''scale'', t_dtype = NpFloat32, t_data = ss\<rparr>])
     \<and> length os = 2 \<and> length is = 2 \<and> length ss = 2"
proof -
  let ?t = "\<lparr>in_dtype = NpObject, in_rows = [[3], [1]]\<rparr>"
  let ?req = "demo_request [[3], [1]] [''output'', ''image'', ''scale'']"
  have 1: "input_tensor ?req = Some ?t" by (simp add: demo_request_def)
  have 2: "in_dtype ?t = NpObject" by simp
  have 3: "{''output'', ''image'', ''scale''} \<subseteq> set (requested_output_names ?req)"
    by (simp add: demo_request_def)
  have 4: "\<forall>b \<in> set (in_rows ?t). \<exists>img r. image_open demo_env b = Some img \<and> transform demo_env img = Inr r"
    using demo_transform_rgb demo_transform_gray by (simp add: demo_open_simps)
  from all_outputs_aligned [OF 1 2 3 4, of demo_dtypes] show ?thesis
    by (auto simp: demo_dtypes_def)
qed

subsection \<open>The shape of the normalised tensor\<close>

lemma normalize_shape:
  assumes "normalizeMeanVariance E d a = Inr n" "well_shaped h w 3 a" "0 < h" "0 < w"
  shows "well_shaped h w 3 n"
  using normalize_ok [OF assms(2-4), where E = E and d = d] assms(1) by auto

lemma normalize_broadcast:
  assumes "well_shaped h w c a" "0 < h" "0 < w" "c \<noteq> 3"
  shows "normalizeMeanVariance E d a = Inl BroadcastError"
proof -
  have "well_shaped h w c (map (map (map (astype_float32 E d))) a)"
    using assms(1) by (auto simp: well_shaped_def)
  from chan_len_well_shaped [OF this assms(2,3)] assms(4) show ?thesis
    by (simp add: normalizeMeanVariance_def Let_def del: map_map)
qed

text \<open>
  Claim C3, as amended. For every accepted image whose decoded array is 2-D with
  element type uint8, uint16 or float32, or 3-D with three channels, whatever its
  height and width, and which PIL resizes to the canvas, the normalised tensor
  has shape (3, 1920, 2240).
\<close>

theorem tensor_shape_on_canvas:
  assumes "image_open E b = Some img"
    and "resized_ok img (image_resize E img newsize)"
    and "(shape img = [h0, w0] \<and> dtype_of img \<in> {NpUInt8, NpUInt16, NpFloat32})
           \<or> shape img = [h0, w0, 3]"
  shows "\<exists>r t. transform E img = Inr (r, t) \<and> well_shaped 3 1920 2240 t"
proof (cases img)
  case (Arr2 d g0)
  with assms(3) have depth: "cv_depth_ok d" by (auto simp: cv_depth_ok_def)
  from Arr2 assms(2) obtain g where g: "image_resize E (Arr2 d g0) newsize = Arr2 d g"
    "length g = 1920" "\<forall>row \<in> set g. length row = 2240"
    by (cases "image_resize E (Arr2 d g0) newsize") auto
  have "\<exists>n. normalizeMeanVariance E d (gray2bgr g) = Inr n
           \<and> transform E (Arr2 d g0) = Inr (Arr3 d (gray2bgr g), transpose_201 n)"
    by (rule transform_gray_ok [OF g _ _ depth]) simp_all
  then obtain n where
    n: "normalizeMeanVariance E d (gray2bgr g) = Inr n"
    and tr: "transform E (Arr2 d g0) = Inr (Arr3 d (gray2bgr g), transpose_201 n)"
    by auto
  have "well_shaped 1920 2240 3 n"
    by (rule normalize_shape [OF n well_shaped_gray2bgr [OF g(2,3)]]) simp_all
  then have "well_shaped 3 1920 2240 (transpose_201 n)"
    by (rule well_shaped_transpose) simp_all
  with tr Arr2 show ?thesis by blast
next
  case (Arr3 d a0)
  with assms(3) have c: "chan_len a0 = 3" by simp
  with Arr3 assms(2) obtain a where a: "image_resize E img newsize = Arr3 d a"
    "well_shaped 1920 2240 3 a"
    by (cases "image_resize E (Arr3 d a0) newsize") auto
  have "\<exists>n. normalizeMeanVariance E d a = Inr n \<and> transform E img = Inr (Arr3 d a, transpose_201 n)"
    by (rule transform_color_ok [OF a]) simp_all
  then obtain n where
    n: "normalizeMeanVariance E d a = Inr n"
    and tr: "transform E img = Inr (Arr3 d a, transpose_201 n)"
    by auto
  have "well_shaped 1920 2240 3 n"
    by (rule normalize_shape [OF n a(2)]) simp_all
  then have "well_shaped 3 1920 2240 (transpose_201 n)"
    by (rule well_shaped_transpose) simp_all
  with tr show ?thesis by blast
qed

lemma demo_resized_ok: "resized_ok img (image_resize demo_env img newsize)"
proof (cases img)
  case (Arr2 d g)
  then show ?thesis by (simp add: demo_env_def fill_resize_def newsize_def)
next
  case (Arr3 d a)
  have "(case xs of [] \<Rightarrow> 0 | px # _ \<Rightarrow> length px)
          = length (case xs of [] \<Rightarrow> [] | px # _ \<Rightarrow> px)" for xs :: "rat list list"
    by (cases xs) simp_all
  then have "chan_len a = length (case concat a of [] \<Rightarrow> [] | px # _ \<Rightarrow> px)"
    unfolding chan_len_def .
  with Arr3 show ?thesis
    by (simp add: demo_env_def fill_resize_def newsize_def well_shaped_replicate)
qed

theorem tensor_shape_on_canvas_witness:
  "(\<exists>r t. transform demo_env (Arr2 NpUInt8 [[7]]) = Inr (r, t) \<and> well_shaped 3 1920 2240 t)
   \<and> (\<exists>r t. transform demo_env (Arr2 NpUInt16 [[1000]]) = Inr (r, t) \<and> well_shaped 3 1920 2240 t)
   \<and> (\<exists>r t. transform demo_env (Arr3 NpUInt8 [[[10, 20, 30]]]) = Inr (r, t)
              \<and> well_shaped 3 1920 2240 t)"
proof -
  have 1: "image_open demo_env [1] = Some (Arr2 NpUInt8 [[7]])" by (simp add: demo_open_simps)
  have 2: "(shape (Arr2 NpUInt8 [[7]]) = [1, 1]
              \<and> dtype_of (Arr2 NpUInt8 [[7]]) \<in> {NpUInt8, NpUInt16, NpFloat32})
           \<or> shape (Arr2 NpUInt8 [[7]]) = [1, 1, 3]"
    by (simp add: row_len_def)
  have 3: "image_open demo_env [6] = Some (Arr2 NpUInt16 [[1000]])" by (simp add: demo_open_simps)
  have 4: "(shape (Arr2 NpUInt16 [[1000]]) = [1, 1]
              \<and> dtype_of (Arr2 NpUInt16 [[1000]]) \<in> {NpUInt8, NpUInt16, NpFloat32})
           \<or> shape (Arr2 NpUInt16 [[1000]]) = [1, 1, 3]"
    by (simp add: row_len_def)
  have 5: "image_open demo_env [3] = Some (Arr3 NpUInt8 [[[10, 20, 30]]])"
    by (simp add: demo_open_simps)
  have 6: "(shape (Arr3 NpUInt8 [[[10, 20, 30]]]) = [1, 1]
              \<and> dtype_of (Arr3 NpUInt8 [[[10, 20, 30]]]) \<in> {NpUInt8, NpUInt16, NpFloat32})
           \<or> shape (Arr3 NpUInt8 [[[10, 20, 30]]]) = [1, 1, 3]"
    by (simp add: row_len_def chan_len_def)
  from tensor_shape_on_canvas [OF 1 demo_resized_ok 2]
    tensor_shape_on_canvas [OF 3 demo_resized_ok 4]
    tensor_shape_on_canvas [OF 5 demo_resized_ok 6]
  show ?thesis by blast
qed

text \<open>
  Claim C3 as written fails for four channels and for the element types that
  OpenCV does not convert. The array of an RGBA image is 3-D, so it takes the
  first branch of the loop body, where the in-place subtraction of a vector of
  three elements from an array whose last axis has length 4 raises. The array of
  a bilevel image is 2-D with element type bool, and \<open>cv2.cvtColor\<close> raises on
  it. No tensor is produced in either case.
\<close>

lemma demo_transform_rgba: "transform demo_env (Arr3 NpUInt8 [[[1, 2, 3, 4]]]) = Inl BroadcastError"
proof -
  have ws: "well_shaped 1920 2240 4 (replicate 1920 (replicate 2240 [1, 2, 3, 4 :: rat]))"
    by (simp add: well_shaped_def)
  have "normalizeMeanVariance demo_env NpUInt8 (replicate 1920 (replicate 2240 [1, 2, 3, 4])) = Inl BroadcastError"
    by (rule normalize_broadcast [OF ws]) simp_all
  then show ?thesis by (simp add: transform_def demo_resize_color)
qed

lemma demo_transform_depth:
  "\<not> cv_depth_ok d \<Longrightarrow> transform demo_env (Arr2 d [[p]]) = Inl CvtColorError"
  by (rule transform_gray_depth [OF demo_resize_gray])

theorem tensor_shape_counterexample:
  "image_open demo_env [4] = Some (Arr3 NpUInt8 [[[1, 2, 3, 4]]])
   \<and> resized_ok (Arr3 NpUInt8 [[[1, 2, 3, 4]]]) (image_resize demo_env (Arr3 NpUInt8 [[[1, 2, 3, 4]]]) newsize)
   \<and> transform demo_env (Arr3 NpUInt8 [[[1, 2, 3, 4]]]) = Inl BroadcastError
   \<and> execute_request demo_env demo_dtypes (demo_request [[4]] [''output'', ''image'', ''scale''])
       = (1, Inl BroadcastError)
   \<and> image_open demo_env [5] = Some (Arr2 NpBool [[1]])
   \<and> resized_ok (Arr2 NpBool [[1]]) (image_resize demo_env (Arr2 NpBool [[1]]) newsize)
   \<and> transform demo_env (Arr2 NpBool [[1]]) = Inl CvtColorError
   \<and> execute_request demo_env demo_dtypes (demo_request [[5]] [''output'', ''image'', ''scale''])
       = (1, Inl CvtColorError)"
  by (simp add: demo_open_simps demo_resized_ok demo_transform_rgba demo_transform_depth
      cv_depth_ok_def execute_request_def demo_request_def init_batch_out_full
      process_image_full_err)

subsection \<open>The values of the normalised tensor\<close>

text \<open>
  Claim C5. For a resized image with three channels, the normalised array holds at
  row \<open>y\<close>, column \<open>x\<close>, channel \<open>c\<close> the float32 quotient of the float32
  difference of the pixel, converted to float32, and \<open>mean[c] * 255.0\<close> by
  \<open>variance[c] * 255.0\<close>, with mean (0.485, 0.456, 0.406) and variance
  (0.229, 0.224, 0.225) by channel index, and the tensor is that array transposed
  from height, width, channel to channel, height, width.
\<close>

theorem normalized_tensor_values:
  assumes "image_resize E img newsize = Arr3 d a" and "well_shaped 1920 2240 3 a"
  shows "\<exists>n. normalizeMeanVariance E d a = Inr n
           \<and> transform E img = Inr (Arr3 d a, transpose_201 n)
           \<and> well_shaped 1920 2240 3 n \<and> well_shaped 3 1920 2240 (transpose_201 n)
           \<and> (\<forall>c<3. \<forall>y<1920. \<forall>x<2240.
                 n ! y ! x ! c =
                   round32 E (round32 E ((if d = NpFloat32 then a ! y ! x ! c
                                           else round32 E (a ! y ! x ! c))
                                          - times255 E (mean ! c))
                              / times255 E (variance ! c))
                 \<and> transpose_201 n ! c ! y ! x = n ! y ! x ! c)
           \<and> mean = [485 / 1000, 456 / 1000, 406 / 1000]
           \<and> variance = [229 / 1000, 224 / 1000, 225 / 1000]"
proof -
  have pos: "(0::nat) < 1920" "(0::nat) < 2240" by simp_all
  from normalize_ok [OF assms(2) pos, where E = E and d = d] obtain n where
    n: "normalizeMeanVariance E d a = Inr n" and ws: "well_shaped 1920 2240 3 n"
    and val: "\<forall>y<1920. \<forall>x<2240. \<forall>k<3. n ! y ! x ! k =
        round32 E (round32 E (astype_float32 E d (a ! y ! x ! k) - times255 E (mean ! k))
                    / times255 E (variance ! k))"
    by blast
  have tr: "transform E img = Inr (Arr3 d a, transpose_201 n)"
    using assms(1) n by (simp add: transform_def)
  have wt: "well_shaped 3 1920 2240 (transpose_201 n)"
    by (rule well_shaped_transpose [OF ws pos])
  have tn: "transpose_201 n ! c ! y ! x = n ! y ! x ! c" if "c < 3" "y < 1920" "x < 2240" for c y x
    by (rule transpose_nth [OF ws pos that])
  from n tr ws wt val tn show ?thesis
    by (simp add: mean_def variance_def astype_float32_def)
qed

theorem normalized_tensor_values_witness:
  "\<exists>n. transform demo_env (Arr3 NpUInt8 [[[10, 20, 30]]])
         = Inr (Arr3 NpUInt8 (replicate 1920 (replicate 2240 [10, 20, 30])), transpose_201 n)
       \<and> transpose_201 n ! 0 ! 5 ! 7 = (10 - 485 / 1000 * 255) / (229 / 1000 * 255)
       \<and> transpose_201 n ! 2 ! 1919 ! 2239 = (30 - 406 / 1000 * 255) / (225 / 1000 * 255)"
proof -
  have ws: "well_shaped 1920 2240 3 (replicate 1920 (replicate 2240 [10, 20, 30 :: rat]))"
    by (simp add: well_shaped_def)
  from normalized_tensor_values [OF demo_resize_color ws] obtain n where
    tr: "transform demo_env (Arr3 NpUInt8 [[[10, 20, 30]]])
         = Inr (Arr3 NpUInt8 (replicate 1920 (replicate 2240 [10, 20, 30])), transpose_201 n)"
    and val: "\<forall>c<3. \<forall>y<1920. \<forall>x<2240.
                 n ! y ! x ! c =
                   round32 demo_env (round32 demo_env
                     ((if NpUInt8 = NpFloat32
                       then replicate 1920 (replicate 2240 [10, 20, 30 :: rat]) ! y ! x ! c
                       else round32 demo_env
                              (replicate 1920 (replicate 2240 [10, 20, 30 :: rat]) ! y ! x ! c))
                                          - times255 demo_env (mean ! c))
                              / times255 demo_env (variance ! c))
                 \<and> transpose_201 n ! c ! y ! x = n ! y ! x ! c"
    by blast
  from val have "transpose_201 n ! 0 ! 5 ! 7 = (10 - 485 / 1000 * 255) / (229 / 1000 * 255)"
    by (simp add: demo_env_def times255_def mean_def variance_def)
  moreover from val have "transpose_201 n ! 2 ! 1919 ! 2239 = (30 - 406 / 1000 * 255) / (225 / 1000 * 255)"
    by (simp add: demo_env_def times255_def mean_def variance_def)
  ultimately show ?thesis using tr by blast
qed

subsection \<open>Grayscale images\<close>





subsection \<open>The scale pair\<close>

lemma dict_append_keys:
  "dict_append k v bo = Inr bo' \<Longrightarrow> k \<in> fst ` set bo \<and> fst ` set bo' = fst ` set bo"
proof (induction bo arbitrary: bo')
  case Nil
  then show ?case by simp
next
  case (Cons p bo)
  obtain k' xs where p: "p = (k', xs)" by (cases p)
  show ?case
  proof (cases "k = k'")
    case True
    with Cons.prems p show ?thesis by auto
  next
    case False
    with Cons.prems p obtain rest' where r: "dict_append k v bo = Inr rest'" "bo' = (k', xs) # rest'"
      by (cases "dict_append k v bo") auto
    from Cons.IH [OF r(1)] r(2) p show ?thesis by simp
  qed
qed

lemma process_image_keys:
  assumes "process_image E img bo = Inr bo'"
  shows "''scale'' \<in> fst ` set bo \<and> ''image'' \<in> fst ` set bo \<and> ''output'' \<in> fst ` set bo"
proof -
  from assms obtain bo1 where 1: "dict_append ''scale'' (scale_pair E img) bo = Inr bo1"
    by (cases "dict_append ''scale'' (scale_pair E img) bo") (auto simp: process_image_def)
  from assms 1 obtain r t where 2: "transform E img = Inr (r, t)"
    by (cases "transform E img") (auto simp: process_image_def)
  from assms 1 2 obtain bo2 where 3: "dict_append ''image'' (VImage r) bo1 = Inr bo2"
    by (cases "dict_append ''image'' (VImage r) bo1") (auto simp: process_image_def)
  from assms 1 2 3 have 4: "dict_append ''output'' (VTensor t) bo2 = Inr bo'"
    by (simp add: process_image_def)
  from dict_append_keys [OF 1] dict_append_keys [OF 3] dict_append_keys [OF 4]
  have "''scale'' \<in> fst ` set bo" "''image'' \<in> fst ` set bo1" "''output'' \<in> fst ` set bo2"
    "fst ` set bo1 = fst ` set bo" "fst ` set bo2 = fst ` set bo1"
    by blast+
  then show ?thesis by simp
qed

lemma init_batch_out_keys: "k \<in> fst ` set (init_batch_out names) \<Longrightarrow> k \<in> set names"
  by (auto simp: init_batch_out_def output_names_def split: if_splits)

lemma image_loop_success_keys:
  assumes "image_loop E bs (n, bo) = (n', Inr bo')" "bs \<noteq> []"
  shows "''scale'' \<in> fst ` set bo \<and> ''image'' \<in> fst ` set bo \<and> ''output'' \<in> fst ` set bo"
proof -
  from assms(2) obtain b rest where bs: "bs = b # rest" by (cases bs) auto
  with assms(1) obtain img where op: "image_open E b = Some img"
    by (cases "image_open E b") auto
  with assms(1) bs obtain bo1 where "process_image E img bo = Inr bo1"
    by (cases "process_image E img bo") auto
  then show ?thesis by (rule process_image_keys)
qed

lemma row_len_replicate: "0 < n \<Longrightarrow> row_len (replicate n r) = length r"
  by (cases n) (simp_all add: row_len_def)

text \<open>
  Claim C4. Whenever a request yields a response, the element of the \<open>scale\<close>
  tensor at the batch position of a buffer whose decoded array has height \<open>H\<close>
  and width \<open>W\<close> is the pair of the doubles \<open>W / 2240\<close> and \<open>H / 1920\<close>; for an
  image of width 4480 and height 3840 it is (2.0, 2.0), 2 being a double.
\<close>

theorem scale_pair_emitted:
  assumes "execute_request E dtypes req = (n, Inr resp)"
    and "input_tensor req = Some t"
    and "i < length (in_rows t)"
    and "image_open E (in_rows t ! i) = Some img"
    and "shape img ! 0 = H" and "shape img ! 1 = W"
  shows "\<exists>os is ss.
     resp = [\<lparr>t_name = ''output'', t_dtype = dtypes ''output'', t_data = os\<rparr>,
             \<lparr>t_name = ''image'', t_dtype = dtypes ''image'', t_data = is\<rparr>,
             \<lparr>t_name = ''scale'', t_dtype = dtypes ''scale'', t_data = ss\<rparr>]
     \<and> length ss = length (in_rows t)
     \<and> ss ! i = VScale (round64 E (of_nat W / 2240)) (round64 E (of_nat H / 1920))
     \<and> (W = 4480 \<and> H = 3840 \<and> round64 E 2 = 2 \<longrightarrow> ss ! i = VScale 2 2)"
proof -
  let ?names = "requested_output_names req"
  from assms(1,2) have chk: "''output'' \<in> set ?names" "in_dtype t = NpObject"
    by (auto simp: execute_request_def split: if_splits)
  with assms(1,2) obtain bo where
    loop: "image_loop E (in_rows t) (0, init_batch_out ?names) = (n, Inr bo)"
    by (cases "image_loop E (in_rows t) (0, init_batch_out ?names)")
       (auto simp: execute_request_def split: sum.splits)
  from assms(3) have ne: "in_rows t \<noteq> []" by auto
  from image_loop_success_keys [OF loop ne] have
    names: "''scale'' \<in> set ?names" "''image'' \<in> set ?names"
    by (blast intro: init_batch_out_keys)+
  from loop have loop': "image_loop E (in_rows t) (0, full_dict [] [] []) = (n, Inr bo)"
    by (simp add: init_batch_out_full [OF chk(1) names(2,1)])
  from execute_request_full [OF assms(2) chk(2) chk(1) names(2,1) loop', of dtypes] assms(1)
  obtain os "is" ss where
    resp: "resp = [\<lparr>t_name = ''output'', t_dtype = dtypes ''output'', t_data = os\<rparr>,
             \<lparr>t_name = ''image'', t_dtype = dtypes ''image'', t_data = is\<rparr>,
             \<lparr>t_name = ''scale'', t_dtype = dtypes ''scale'', t_data = ss\<rparr>]"
    and len: "length ss = length (in_rows t)"
    and nth: "\<forall>i < length (in_rows t). \<exists>img r a.
           image_open E (in_rows t ! i) = Some img \<and> transform E img = Inr (r, a)
           \<and> os ! i = VTensor a \<and> is ! i = VImage r \<and> ss ! i = scale_pair E img"
    by auto
  from nth assms(3,4) have "ss ! i = scale_pair E img" by auto
  with assms(5,6) have
    val: "ss ! i = VScale (round64 E (of_nat W / 2240)) (round64 E (of_nat H / 1920))"
    by (simp add: scale_pair_def Let_def)
  then have "W = 4480 \<and> H = 3840 \<and> round64 E 2 = 2 \<longrightarrow> ss ! i = VScale 2 2"
    by simp
  with resp len val show ?thesis by blast
qed


lemma demo_transform_gray_any:
  assumes "cv_depth_ok d"
  shows "\<exists>r. transform demo_env (Arr2 d g) = Inr r"
proof -
  obtain p where rs: "image_resize demo_env (Arr2 d g) newsize = Arr2 d (replicate 1920 (replicate 2240 p))"
    by (simp add: demo_env_def fill_resize_def newsize_def)
  have "\<exists>n. normalizeMeanVariance demo_env d (gray2bgr (replicate 1920 (replicate 2240 p))) = Inr n
           \<and> transform demo_env (Arr2 d g) =
               Inr (Arr3 d (gray2bgr (replicate 1920 (replicate 2240 p))), transpose_201 n)"
    by (rule transform_gray_ok [OF rs, where h = 1920 and w = 2240]) (simp_all add: assms)
  then show ?thesis by auto
qed

theorem scale_pair_emitted_witness:
  "\<exists>os is ss.
     execute_request demo_env demo_dtypes (demo_request [[3], [2]] [''output'', ''image'', ''scale'']) =
       (2, Inr [\<lparr>t_name = ''output'', t_dtype = NpFloat32, t_data = os\<rparr>,
                \<lparr>t_name = ''image'', t_dtype = NpUInt8, t_data = is\<rparr>,
                \<lparr>t_name = ''scale'', t_dtype = NpFloat32, t_data = ss\<rparr>])
     \<and> ss ! 1 = VScale 2 2"
proof -
  let ?t = "\<lparr>in_dtype = NpObject, in_rows = [[3], [2]]\<rparr>"
  let ?req = "demo_request [[3], [2]] [''output'', ''image'', ''scale'']"
  let ?img = "Arr2 NpUInt8 (replicate 3840 (replicate 4480 0))"
  have t: "input_tensor ?req = Some ?t" by (simp add: demo_request_def)
  have op2: "image_open demo_env [2] = Some ?img" by (simp add: demo_env_def demo_open_def)
  have "\<forall>b \<in> set (in_rows ?t). \<exists>img r. image_open demo_env b = Some img \<and> transform demo_env img = Inr r"
    using demo_transform_rgb
      demo_transform_gray_any [where d = NpUInt8 and g = "replicate 3840 (replicate 4480 0)"]
    by (simp add: demo_open_simps op2 cv_depth_ok_def)
  from image_loop_full_ok [OF this, of 0 "[]" "[]" "[]"] obtain bo where
    loop: "image_loop demo_env (in_rows ?t) (0, full_dict [] [] []) = (2, Inr bo)"
    by auto
  have dt: "in_dtype ?t = NpObject" by simp
  have nm: "''output'' \<in> set (requested_output_names ?req)"
    "''image'' \<in> set (requested_output_names ?req)"
    "''scale'' \<in> set (requested_output_names ?req)"
    by (simp_all add: demo_request_def)
  from execute_request_full [OF t dt nm loop, where dtypes = demo_dtypes]
  obtain resp where run: "execute_request demo_env demo_dtypes ?req = (2, Inr resp)"
    by auto
  have i: "1 < length (in_rows ?t)" by simp
  have op: "image_open demo_env (in_rows ?t ! 1) = Some ?img" by (simp add: op2)
  have h: "shape ?img ! 0 = 3840" by simp
  have w: "shape ?img ! 1 = 4480" by (simp add: row_len_replicate)
  have r: "round64 demo_env 2 = 2" by (simp add: demo_env_def)
  from scale_pair_emitted [OF run t i op h w] r run show ?thesis
    by (auto simp: demo_dtypes_def)
qed

subsection \<open>Buffers that cannot be decoded\<close>

lemma image_loop_append:
  "image_loop E (xs @ ys) (n, bo) =
     (case image_loop E xs (n, bo) of
        (k, Inl e) \<Rightarrow> (k, Inl e)
      | (k, Inr bo') \<Rightarrow> image_loop E ys (k, bo'))"
  by (induction xs arbitrary: n bo) (auto split: option.splits sum.splits)

lemma image_loop_count:
  "image_loop E xs (n, bo) = (k, Inr bo') \<Longrightarrow> k = n + length xs"
proof (induction xs arbitrary: n bo)
  case Nil
  then show ?case by simp
next
  case (Cons x xs)
  from Cons.prems obtain img where op: "image_open E x = Some img"
    by (cases "image_open E x") auto
  with Cons.prems obtain bo1 where p: "process_image E img bo = Inr bo1"
    by (cases "process_image E img bo") auto
  from Cons.prems op p have "image_loop E xs (Suc n, bo1) = (k, Inr bo')" by simp
  from Cons.IH [OF this] show ?case by simp
qed

lemma image_loop_undecodable:
  "b \<in> set bs \<Longrightarrow> image_open E b = None \<Longrightarrow> \<exists>k e. image_loop E bs (n, bo) = (k, Inl e)"
  by (induction bs arbitrary: n bo) (auto split: option.splits sum.splits)

lemma execute_request_undecodable:
  assumes "input_tensor req = Some t" "b \<in> set (in_rows t)" "image_open E b = None"
  shows "\<exists>n e. execute_request E dtypes req = (n, Inl e)"
proof -
  from image_loop_undecodable [OF assms(2,3)] obtain k e where
    "image_loop E (in_rows t) (0, init_batch_out (requested_output_names req)) = (k, Inl e)"
    by blast
  with assms(1) show ?thesis by (simp add: execute_request_def)
qed

lemma execute_fails:
  "req \<in> set reqs \<Longrightarrow> snd (execute_request E dtypes req) = Inl e \<Longrightarrow>
   \<exists>e'. execute E dtypes reqs = Inl e'"
  by (induction reqs) (auto split: sum.splits)

text \<open>
  Claim C7, as amended. A request whose batch holds a buffer that cannot be
  decoded, at any position, ends in an exception and yields no response, and so
  does every call of \<open>execute\<close> on a list with that request. The exception is the
  decode error of that buffer when the request passes the checks on the requested
  names and on the element type and the loop completes the buffers before it.
\<close>

theorem undecodable_buffer_aborts:
  assumes "input_tensor req = Some t" and "in_rows t = pre @ b # post"
    and "image_open E b = None"
  shows "(\<exists>n e. execute_request E dtypes req = (n, Inl e))
       \<and> (\<forall>reqs. req \<in> set reqs \<longrightarrow> (\<exists>e. execute E dtypes reqs = Inl e))
       \<and> (''output'' \<in> set (requested_output_names req) \<and> in_dtype t = NpObject
            \<and> (\<exists>k bo. image_loop E pre (0, init_batch_out (requested_output_names req)) = (k, Inr bo))
          \<longrightarrow> execute_request E dtypes req = (Suc (length pre), Inl DecodeError))"
proof -
  from assms(2) have mem: "b \<in> set (in_rows t)" by simp
  from execute_request_undecodable [OF assms(1) mem assms(3)] obtain n e where
    ab: "execute_request E dtypes req = (n, Inl e)" by blast
  then have "snd (execute_request E dtypes req) = Inl e" by simp
  then have all: "\<forall>reqs. req \<in> set reqs \<longrightarrow> (\<exists>e. execute E dtypes reqs = Inl e)"
    by (blast intro: execute_fails)
  have dec: "execute_request E dtypes req = (Suc (length pre), Inl DecodeError)"
    if "''output'' \<in> set (requested_output_names req)" "in_dtype t = NpObject"
      "image_loop E pre (0, init_batch_out (requested_output_names req)) = (k, Inr bo)" for k bo
  proof -
    from image_loop_count [OF that(3)] have k: "k = length pre" by simp
    have "image_loop E (in_rows t) (0, init_batch_out (requested_output_names req))
            = (Suc (length pre), Inl DecodeError)"
      using that(3) assms(3) k by (simp add: assms(2) image_loop_append)
    with assms(1) that(1,2) show ?thesis by (simp add: execute_request_def)
  qed
  from ab all dec show ?thesis by blast
qed

theorem undecodable_buffer_aborts_witness:
  "execute_request demo_env demo_dtypes
     (demo_request [[3], [], [1]] [''output'', ''image'', ''scale'']) = (2, Inl DecodeError)
   \<and> (\<exists>e. execute demo_env demo_dtypes
        [demo_request [] [''output''],
         demo_request [[3], [], [1]] [''output'', ''image'', ''scale'']] = Inl e)"
proof -
  let ?t = "\<lparr>in_dtype = NpObject, in_rows = [[3], [], [1]]\<rparr>"
  let ?req = "demo_request [[3], [], [1]] [''output'', ''image'', ''scale'']"
  have t: "input_tensor ?req = Some ?t" by (simp add: demo_request_def)
  have rows: "in_rows ?t = [[3]] @ [] # [[1]]" by simp
  have bad: "image_open demo_env [] = None" by (simp add: demo_open_simps)
  have "\<forall>b \<in> set [[3]]. \<exists>img r. image_open demo_env b = Some img \<and> transform demo_env img = Inr r"
    using demo_transform_rgb by (simp add: demo_open_simps)
  from image_loop_full_ok [OF this, of 0 "[]" "[]" "[]"] have
    pre: "\<exists>k bo. image_loop demo_env [[3]] (0, init_batch_out (requested_output_names ?req)) = (k, Inr bo)"
    by (auto simp: demo_request_def init_batch_out_full)
  have chk: "''output'' \<in> set (requested_output_names ?req)" "in_dtype ?t = NpObject"
    by (simp_all add: demo_request_def)
  note main = undecodable_buffer_aborts [OF t rows bad, of demo_dtypes]
  from main pre chk have
    1: "execute_request demo_env demo_dtypes ?req = (Suc (length [[3::8 word]]), Inl DecodeError)"
    by blast
  have "?req \<in> set [demo_request [] [''output''], ?req]" by simp
  with main have 2: "\<exists>e. execute demo_env demo_dtypes [demo_request [] [''output''], ?req] = Inl e"
    by blast
  from 1 2 show ?thesis by simp
qed

text \<open>
  Claim C7 as written fails: with an undecodable buffer in the batch, a request
  that does not ask for \<open>output\<close> raises the missing-output error before the
  loop, and a request whose first image has four channels raises the broadcast
  error before the undecodable buffer is reached.
\<close>

theorem decode_error_counterexample:
  "image_open demo_env [] = None
   \<and> execute_request demo_env demo_dtypes (demo_request [[]] [''image'']) = (0, Inl MissingOutput)
   \<and> execute_request demo_env demo_dtypes (demo_request [[4], []] [''output'', ''image'', ''scale''])
       = (1, Inl BroadcastError)"
  by (simp add: demo_open_simps demo_transform_rgba execute_request_def
      demo_request_def init_batch_out_full process_image_full_err)

end
